theory Spec2Isabelle
  imports Complex_Main
begin

section \<open>Values shared by both backends\<close>

text \<open>
  A JavaScript \<open>number\<close> is modelled as a \<open>real\<close>: the arithmetic of the two files
  (\<open>/ 1000\<close>, \<open>* 1000\<close>, \<open>+ 1000\<close>, \<open>Math.min\<close>) is read exactly, without rounding
  and without \<open>NaN\<close>. Indexes into the queue are natural numbers; \<open>findIndex\<close> keeps
  its \<open>-1\<close> and is therefore an \<open>int\<close>.

  A value of type \<open>string | null\<close> is a \<open>string option\<close>. JavaScript treats both
  \<open>null\<close> and the empty string as false in a condition.
\<close>

type_synonym number = real

definition truthy :: "string option \<Rightarrow> bool" where
  "truthy v = (case v of None \<Rightarrow> False | Some s \<Rightarrow> s \<noteq> [])"

text \<open>\<open>x || d\<close> on numbers: \<open>d\<close> when \<open>x\<close> is \<open>0\<close>, else \<open>x\<close>.\<close>

definition or_number :: "number \<Rightarrow> number \<Rightarrow> number" where
  "or_number x d = (if x = 0 then d else x)"

record album =
  album_id :: "string option"
  album_name :: "string option"
  album_images :: "string list"

record artist =
  artist_id :: "string option"
  artist_name :: "string option"

text \<open>
  Modelled from the spec: the declaration of \<open>SpotifyTrack\<close> (module \<open>@/hooks/useSpotify\<close>)
  is not among the sources. The spec gives a track an id, a name, a duration, an album,
  an artist list and an optional preview-clip URL; the code reads \<open>id\<close> and
  \<open>preview_url\<close> only.
\<close>

record track =
  track_id :: string
  track_name :: string
  duration_ms :: number
  track_album :: album
  track_artists :: "artist list"
  preview_url :: "string option"

datatype error = TypeError | IndexSizeError

text \<open>Sequencing of two fallible steps: the first exception ends the run.\<close>

definition and_then :: "error + 'a \<Rightarrow> ('a \<Rightarrow> error + 'b) \<Rightarrow> error + 'b" where
  "and_then r f = (case r of Inl e \<Rightarrow> Inl e | Inr x \<Rightarrow> f x)"

text \<open>\<open>xs[i]\<close>: \<open>undefined\<close> (here \<open>None\<close>) out of range.\<close>

definition at_index :: "'a list \<Rightarrow> nat \<Rightarrow> 'a option" where
  "at_index xs i = (if i < length xs then Some (xs ! i) else None)"

text \<open>\<open>Array.prototype.findIndex\<close>: the first position that satisfies the test, or \<open>-1\<close>.\<close>

fun findIndex :: "('a \<Rightarrow> bool) \<Rightarrow> 'a list \<Rightarrow> int" where
  "findIndex P [] = - 1"
| "findIndex P (x # xs) =
     (if P x then 0 else (let r = findIndex P xs in if r < 0 then - 1 else r + 1))"

text \<open>\<open>s.split(c)\<close> for a one-character separator, and \<open>s.split(':')[2]\<close>.\<close>

fun split :: "char \<Rightarrow> string \<Rightarrow> string list" where
  "split c [] = [[]]"
| "split c (x # xs) =
     (if x = c then [] # split c xs
      else (case split c xs of [] \<Rightarrow> [[x]] | w # ws \<Rightarrow> (x # w) # ws))"

definition uri_id :: "string option \<Rightarrow> string option" where
  "uri_id uri = (case uri of None \<Rightarrow> None | Some u \<Rightarrow> at_index (split CHR '':'' u) 2)"


section \<open>Remote session adapter (useSpotifyPlayer)\<close>

record PlayerState =
  deviceId :: "string option"
  isReady :: bool
  isActive :: bool
  isPaused :: bool
  currentTrack :: "track option"
  position :: number
  duration :: number
  volume :: number

definition initial_PlayerState :: PlayerState where
  "initial_PlayerState =
     \<lparr>deviceId = None, isReady = False, isActive = False, isPaused = True,
      currentTrack = None, position = 0, duration = 0, volume = 1 / 2\<rparr>"

text \<open>
  The vendor player and the Web API are outside the program. What the adapter sends
  them is kept as a log: the calls made on the connected player (\<open>playerRef.current\<close>,
  \<open>None\<close> while it is \<open>null\<close>) and the play requests sent by \<open>fetch\<close>.
\<close>

datatype sdk_call =
  SdkTogglePlay | SdkNextTrack | SdkPreviousTrack | SdkSeek number | SdkSetVolume number

datatype play_body = ContextBody string string | UrisBody "string list"

record play_request =
  request_device :: string
  request_token :: string
  request_body :: play_body

record remote =
  state :: PlayerState
  playerRef :: "sdk_call list option"
  requests :: "play_request list"

definition initial_remote :: remote where
  "initial_remote = \<lparr>state = initial_PlayerState, playerRef = None, requests = []\<rparr>"

subsection \<open>The payload of player_state_changed\<close>

record sdk_album =
  sdk_album_uri :: "string option"
  sdk_album_name :: "string option"
  sdk_album_images :: "string list option"

record sdk_artist =
  sdk_artist_uri :: "string option"
  sdk_artist_name :: "string option"

record sdk_track =
  sdk_id :: string
  sdk_name :: string
  sdk_duration_ms :: number
  sdk_album :: "sdk_album option"
  sdk_artists :: "sdk_artist list option"

record sdk_state =
  paused :: bool
  sdk_position :: number
  track_window :: "sdk_track option option"

definition map_album :: "sdk_album option \<Rightarrow> album" where
  "map_album a =
     \<lparr>album_id = (case a of None \<Rightarrow> None | Some b \<Rightarrow> uri_id (sdk_album_uri b)),
      album_name = (case a of None \<Rightarrow> None | Some b \<Rightarrow> sdk_album_name b),
      album_images =
        (case a of None \<Rightarrow> []
         | Some b \<Rightarrow> (case sdk_album_images b of None \<Rightarrow> [] | Some imgs \<Rightarrow> imgs))\<rparr>"

definition map_artist :: "sdk_artist \<Rightarrow> artist" where
  "map_artist a = \<lparr>artist_id = uri_id (sdk_artist_uri a), artist_name = sdk_artist_name a\<rparr>"

definition map_track :: "sdk_track \<Rightarrow> track" where
  "map_track t =
     \<lparr>track_id = sdk_id t, track_name = sdk_name t, duration_ms = sdk_duration_ms t,
      track_album = map_album (sdk_album t),
      track_artists = (case sdk_artists t of None \<Rightarrow> [] | Some arts \<Rightarrow> map map_artist arts),
      preview_url = None\<rparr>"

subsection \<open>Listeners\<close>

text \<open>
  Each listener starts with \<open>if (!isMounted) return\<close>; the flag is the first argument.
  None of them has a throwing path, so each returns \<open>Inr\<close>.
\<close>

definition ready_listener :: "bool \<Rightarrow> string \<Rightarrow> PlayerState \<Rightarrow> error + PlayerState" where
  "ready_listener isMounted device_id prev =
     (if \<not> isMounted then Inr prev
      else Inr (prev\<lparr>deviceId := Some device_id, isReady := True\<rparr>))"

definition not_ready_listener :: "bool \<Rightarrow> string \<Rightarrow> PlayerState \<Rightarrow> error + PlayerState" where
  "not_ready_listener isMounted device_id prev =
     (if \<not> isMounted then Inr prev else Inr (prev\<lparr>isReady := False\<rparr>))"

definition player_state_changed_listener ::
    "bool \<Rightarrow> sdk_state option \<Rightarrow> PlayerState \<Rightarrow> error + PlayerState" where
  "player_state_changed_listener isMounted playerState prev =
     (if \<not> isMounted then Inr prev
      else (case playerState of
          None \<Rightarrow> Inr (prev\<lparr>isActive := False\<rparr>)
        | Some ps \<Rightarrow>
            (let current = (case track_window ps of None \<Rightarrow> None | Some w \<Rightarrow> w)
             in Inr (prev\<lparr>isActive := True,
                          isPaused := paused ps,
                          currentTrack := map_option map_track current,
                          position := sdk_position ps,
                          duration :=
                            or_number (case current of None \<Rightarrow> 0
                                       | Some t \<Rightarrow> sdk_duration_ms t) 0\<rparr>))))"

text \<open>
  The one-second interval exists only while the state is active and not paused; its
  callback moves the position by 1000 ms, capped at the duration.
\<close>

definition position_interval :: "PlayerState \<Rightarrow> PlayerState" where
  "position_interval prev =
     (if \<not> isActive prev \<or> isPaused prev then prev
      else prev\<lparr>position := min (position prev + 1000) (duration prev)\<rparr>)"

subsection \<open>Transport methods\<close>

text \<open>
  Every method wraps its body in \<open>try/catch\<close>. The outcome of the awaited promise is an
  input: \<open>token\<close> is what \<open>getValidAccessToken\<close> gave (\<open>None\<close> also when it failed),
  \<open>resolved\<close> says whether the vendor player's promise was fulfilled.
\<close>

definition spotifyPlayer_play ::
    "string option \<Rightarrow> string \<Rightarrow> string option \<Rightarrow> remote \<Rightarrow> remote" where
  "spotifyPlayer_play token uri contextUri r =
     (case (token, deviceId (state r)) of
        (Some tok, Some dev) \<Rightarrow>
          (if tok = [] \<or> dev = [] then r
           else r\<lparr>requests := requests r @
                  [\<lparr>request_device = dev, request_token = tok,
                    request_body = (case contextUri of
                        None \<Rightarrow> UrisBody [uri]
                      | Some c \<Rightarrow> if c = [] then UrisBody [uri] else ContextBody c uri)\<rparr>]\<rparr>)
      | _ \<Rightarrow> r)"

definition sdk_send :: "sdk_call \<Rightarrow> remote \<Rightarrow> remote" where
  "sdk_send c r =
     (case playerRef r of None \<Rightarrow> r | Some calls \<Rightarrow> r\<lparr>playerRef := Some (calls @ [c])\<rparr>)"

definition spotifyPlayer_togglePlay :: "remote \<Rightarrow> remote" where
  "spotifyPlayer_togglePlay r = sdk_send SdkTogglePlay r"

definition spotifyPlayer_nextTrack :: "remote \<Rightarrow> remote" where
  "spotifyPlayer_nextTrack r = sdk_send SdkNextTrack r"

definition spotifyPlayer_previousTrack :: "remote \<Rightarrow> remote" where
  "spotifyPlayer_previousTrack r = sdk_send SdkPreviousTrack r"

definition spotifyPlayer_seek :: "number \<Rightarrow> remote \<Rightarrow> remote" where
  "spotifyPlayer_seek position_ms r = sdk_send (SdkSeek position_ms) r"

definition spotifyPlayer_setVolume :: "bool \<Rightarrow> number \<Rightarrow> remote \<Rightarrow> remote" where
  "spotifyPlayer_setVolume resolved v r =
     (case playerRef r of
        None \<Rightarrow> r
      | Some calls \<Rightarrow>
          (let r' = r\<lparr>playerRef := Some (calls @ [SdkSetVolume v])\<rparr>
           in if resolved then r'\<lparr>state := (state r')\<lparr>volume := v\<rparr>\<rparr> else r'))"


section \<open>Playback coordinator (PlayerProvider)\<close>

record preview =
  preview_isPlaying :: bool
  preview_progress :: number
  preview_duration :: number
  preview_volume :: number

text \<open>
  The audio element belongs to the browser. The coordinator's writes to it are kept as
  a log; what it reads from it (\<open>currentTime\<close>, \<open>duration\<close>, whether \<open>play()\<close> was
  fulfilled) is an input of the handler that reads it.
\<close>

datatype audio_command =
  SetSrc string | Play | Pause | SetCurrentTime number | SetVolume number

record player =
  spotifyPlayer :: remote
  localQueue :: "track list"
  localIndex :: nat
  localTrack :: "track option"
  audioRef :: "audio_command list option"
  previewState :: preview

definition initial_preview :: preview where
  "initial_preview =
     \<lparr>preview_isPlaying = False, preview_progress = 0, preview_duration = 0,
      preview_volume = 1 / 2\<rparr>"

text \<open>The provider after its mount effect: \<open>new Audio()\<close> with the initial volume.\<close>

definition initial_player :: player where
  "initial_player =
     \<lparr>spotifyPlayer = initial_remote, localQueue = [], localIndex = 0, localTrack = None,
      audioRef = Some [SetVolume (1 / 2)], previewState = initial_preview\<rparr>"

definition isPremiumPlayer :: "player \<Rightarrow> bool" where
  "isPremiumPlayer p =
     (isReady (state (spotifyPlayer p)) \<and> truthy (deviceId (state (spotifyPlayer p))))"

definition audio_send :: "audio_command list \<Rightarrow> player \<Rightarrow> player" where
  "audio_send cs p =
     (case audioRef p of None \<Rightarrow> p | Some sent \<Rightarrow> p\<lparr>audioRef := Some (sent @ cs)\<rparr>)"

subsection \<open>Audio element events\<close>

text \<open>The listeners are registered only when the audio element exists.\<close>

definition handleTimeUpdate :: "number \<Rightarrow> player \<Rightarrow> error + player" where
  "handleTimeUpdate currentTime p =
     (case audioRef p of None \<Rightarrow> Inr p
      | Some _ \<Rightarrow> Inr (p\<lparr>previewState := (previewState p)\<lparr>preview_progress := currentTime\<rparr>\<rparr>))"

definition handleLoadedMetadata :: "number \<Rightarrow> player \<Rightarrow> error + player" where
  "handleLoadedMetadata audio_duration p =
     (case audioRef p of None \<Rightarrow> Inr p
      | Some _ \<Rightarrow>
          Inr (p\<lparr>previewState := (previewState p)\<lparr>preview_duration := audio_duration\<rparr>\<rparr>))"

definition handleEnded :: "player \<Rightarrow> error + player" where
  "handleEnded p =
     (case audioRef p of None \<Rightarrow> Inr p
      | Some _ \<Rightarrow>
          (let p1 = p\<lparr>previewState := (previewState p)\<lparr>preview_isPlaying := False\<rparr>\<rparr>
           in if length (localQueue p) > 0 then
                (let nextIdx = (localIndex p + 1) mod length (localQueue p);
                     nextTrack = at_index (localQueue p) nextIdx
                 in (case nextTrack of
                       None \<Rightarrow> Inr p1
                     | Some t \<Rightarrow>
                         (if truthy (preview_url t) then
                            (let p2 = audio_send [SetSrc (the (preview_url t)), Play] p1;
                                 p3 = p2\<lparr>localIndex := nextIdx, localTrack := Some t\<rparr>
                             in Inr (p3\<lparr>previewState :=
                                         (previewState p3)\<lparr>preview_isPlaying := True\<rparr>\<rparr>))
                          else Inr p1)))
              else Inr p1))"

definition handleError :: "player \<Rightarrow> error + player" where
  "handleError p =
     (case audioRef p of None \<Rightarrow> Inr p
      | Some _ \<Rightarrow> Inr (p\<lparr>previewState := (previewState p)\<lparr>preview_isPlaying := False\<rparr>\<rparr>))"

subsection \<open>Actions\<close>

text \<open>
  The inputs of an action that come from outside: the access token the remote \<open>play\<close>
  obtains, and whether the promise of the audio element's \<open>play()\<close> or of the vendor
  player's method was fulfilled.
\<close>

record outcome =
  token :: "string option"
  resolved :: bool

definition playTrack :: "outcome \<Rightarrow> track \<Rightarrow> track list option \<Rightarrow> player \<Rightarrow> error + player" where
  "playTrack env t queue p =
     (let p1 = (case queue of
                  None \<Rightarrow> p
                | Some q \<Rightarrow>
                    (let idx = findIndex (\<lambda>u. track_id u = track_id t) q
                     in p\<lparr>localQueue := q, localIndex := (if idx \<ge> 0 then nat idx else 0)\<rparr>));
          p2 = p1\<lparr>localTrack := Some t\<rparr>
      in if isPremiumPlayer p then
           Inr (p2\<lparr>spotifyPlayer :=
                    spotifyPlayer_play (token env) (''spotify:track:'' @ track_id t) None
                      (spotifyPlayer p2)\<rparr>)
         else if truthy (preview_url t) \<and> audioRef p \<noteq> None then
           (let p3 = audio_send [SetSrc (the (preview_url t)), Play] p2
            in if resolved env then
                 Inr (p3\<lparr>previewState :=
                          (previewState p3)\<lparr>preview_isPlaying := True, preview_progress := 0\<rparr>\<rparr>)
               else Inr p3)
         else Inr p2)"

definition togglePlay :: "outcome \<Rightarrow> player \<Rightarrow> error + player" where
  "togglePlay env p =
     (if isPremiumPlayer p then
        Inr (p\<lparr>spotifyPlayer := spotifyPlayer_togglePlay (spotifyPlayer p)\<rparr>)
      else if audioRef p \<noteq> None then
        (if preview_isPlaying (previewState p) then
           (let p1 = audio_send [Pause] p
            in Inr (p1\<lparr>previewState := (previewState p1)\<lparr>preview_isPlaying := False\<rparr>\<rparr>))
         else
           (let p1 = audio_send [Play] p
            in if resolved env then
                 Inr (p1\<lparr>previewState := (previewState p1)\<lparr>preview_isPlaying := True\<rparr>\<rparr>)
               else Inr p1))
      else Inr p)"

text \<open>
  \<open>localQueue[i]\<close> out of range is \<open>undefined\<close>, and \<open>playTrack(undefined, localQueue)\<close>
  throws a TypeError on \<open>track.id\<close>.
\<close>

definition handleNextTrack :: "outcome \<Rightarrow> player \<Rightarrow> error + player" where
  "handleNextTrack env p =
     (if isPremiumPlayer p then
        Inr (p\<lparr>spotifyPlayer := spotifyPlayer_nextTrack (spotifyPlayer p)\<rparr>)
      else if length (localQueue p) > 0 then
        (let nextIdx = (localIndex p + 1) mod length (localQueue p)
         in (case at_index (localQueue p) nextIdx of
               None \<Rightarrow> Inl TypeError
             | Some t \<Rightarrow> playTrack env t (Some (localQueue p)) p))
      else Inr p)"

definition handlePreviousTrack :: "outcome \<Rightarrow> player \<Rightarrow> error + player" where
  "handlePreviousTrack env p =
     (if isPremiumPlayer p then
        Inr (p\<lparr>spotifyPlayer := spotifyPlayer_previousTrack (spotifyPlayer p)\<rparr>)
      else if length (localQueue p) > 0 then
        (let prevIdx = (if localIndex p = 0 then length (localQueue p) - 1
                        else localIndex p - 1)
         in (case at_index (localQueue p) prevIdx of
               None \<Rightarrow> Inl TypeError
             | Some t \<Rightarrow> playTrack env t (Some (localQueue p)) p))
      else Inr p)"

definition seek :: "number \<Rightarrow> player \<Rightarrow> error + player" where
  "seek time p =
     (if isPremiumPlayer p then
        Inr (p\<lparr>spotifyPlayer := spotifyPlayer_seek (time * 1000) (spotifyPlayer p)\<rparr>)
      else if audioRef p \<noteq> None then
        (let p1 = audio_send [SetCurrentTime time] p
         in Inr (p1\<lparr>previewState := (previewState p1)\<lparr>preview_progress := time\<rparr>\<rparr>))
      else Inr p)"

text \<open>
  The audio element accepts a volume between 0 and 1 only: the assignment
  \<open>audioRef.current.volume = volume\<close> throws an IndexSizeError for any other value.
  Nothing catches it, and \<open>setPreviewState\<close> is then not reached. The vendor player's
  \<open>setVolume\<close> stands inside \<open>try/catch\<close>.
\<close>

definition handleSetVolume :: "outcome \<Rightarrow> number \<Rightarrow> player \<Rightarrow> error + player" where
  "handleSetVolume env v p =
     (if isPremiumPlayer p then
        Inr (p\<lparr>spotifyPlayer := spotifyPlayer_setVolume (resolved env) v (spotifyPlayer p)\<rparr>)
      else if audioRef p \<noteq> None then
        (if 0 \<le> v \<and> v \<le> 1 then
           (let p1 = audio_send [SetVolume v] p
            in Inr (p1\<lparr>previewState := (previewState p1)\<lparr>preview_volume := v\<rparr>\<rparr>))
         else Inl IndexSizeError)
      else Inr p)"

subsection \<open>Merged read model\<close>

definition merged_currentTrack :: "player \<Rightarrow> track option" where
  "merged_currentTrack p =
     (if isPremiumPlayer p then currentTrack (state (spotifyPlayer p)) else localTrack p)"

definition merged_isPlaying :: "player \<Rightarrow> bool" where
  "merged_isPlaying p =
     (if isPremiumPlayer p then \<not> isPaused (state (spotifyPlayer p))
      else preview_isPlaying (previewState p))"

definition merged_progress :: "player \<Rightarrow> number" where
  "merged_progress p =
     (if isPremiumPlayer p then position (state (spotifyPlayer p)) / 1000
      else preview_progress (previewState p))"

definition merged_duration :: "player \<Rightarrow> number" where
  "merged_duration p =
     (if isPremiumPlayer p then duration (state (spotifyPlayer p)) / 1000
      else or_number (preview_duration (previewState p)) 30)"

definition merged_volume :: "player \<Rightarrow> number" where
  "merged_volume p =
     (if isPremiumPlayer p then volume (state (spotifyPlayer p))
      else preview_volume (previewState p))"

subsection \<open>The bound on progress\<close>

text \<open>The provider after the hook's \<open>setState\<close> has replaced the adapter's state.\<close>

definition set_state :: "PlayerState \<Rightarrow> player \<Rightarrow> player" where
  "set_state st p = p\<lparr>spotifyPlayer := (spotifyPlayer p)\<lparr>state := st\<rparr>\<rparr>"

text \<open>The bound of the spec on what a consumer reads.\<close>

definition progress_bounded :: "player \<Rightarrow> bool" where
  "progress_bounded p = (0 \<le> merged_progress p \<and> merged_progress p \<le> merged_duration p)"

text \<open>The four numbers the bound reads.\<close>

definition readings :: "player \<Rightarrow> number \<times> number \<times> number \<times> number" where
  "readings p =
     (position (state (spotifyPlayer p)), duration (state (spotifyPlayer p)),
      preview_progress (previewState p), preview_duration (previewState p))"

text \<open>
  The same bound on each backend's own values (the local duration with its default),
  whichever is authoritative.
\<close>

definition backends_bounded :: "player \<Rightarrow> bool" where
  "backends_bounded p =
     (0 \<le> position (state (spotifyPlayer p)) \<and>
      position (state (spotifyPlayer p)) \<le> duration (state (spotifyPlayer p)) \<and>
      0 \<le> preview_progress (previewState p) \<and>
      preview_progress (previewState p) \<le> or_number (preview_duration (previewState p)) 30)"


section \<open>States and inputs used in the examples\<close>

definition no_album :: album where
  "no_album = \<lparr>album_id = None, album_name = None, album_images = []\<rparr>"

definition track_A :: track where
  "track_A =
     \<lparr>track_id = ''a'', track_name = ''A'', duration_ms = 200000, track_album = no_album,
      track_artists = [], preview_url = Some ''https://p.example/a.mp3''\<rparr>"

text \<open>A track without a preview clip.\<close>

definition track_B :: track where
  "track_B =
     \<lparr>track_id = ''b'', track_name = ''B'', duration_ms = 180000, track_album = no_album,
      track_artists = [], preview_url = None\<rparr>"

definition fulfilled :: outcome where
  "fulfilled = \<lparr>token = Some ''token'', resolved = True\<rparr>"

text \<open>The adapter's state after \<open>ready\<close> with the given device id.\<close>

definition ready_state :: "string \<Rightarrow> PlayerState" where
  "ready_state dev = initial_PlayerState\<lparr>deviceId := Some dev, isReady := True\<rparr>"




definition track_C :: track where
  "track_C =
     \<lparr>track_id = ''c'', track_name = ''C'', duration_ms = 240000, track_album = no_album,
      track_artists = [], preview_url = Some ''https://p.example/c.mp3''\<rparr>"

text \<open>
  The local fallback playing the preview of \<open>track_A\<close>, first of the queue
  \<open>[track_A, track_B]\<close>: the state after \<open>playTrack(track_A, [track_A, track_B])\<close>.
\<close>

definition playing_A :: player where
  "playing_A =
     initial_player\<lparr>localQueue := [track_A, track_B], localIndex := 0,
        localTrack := Some track_A,
        audioRef := Some [SetVolume (1 / 2), SetSrc ''https://p.example/a.mp3'', Play],
        previewState := initial_preview\<lparr>preview_isPlaying := True\<rparr>\<rparr>"

text \<open>
  A queue that holds \<open>track_A\<close> twice, with \<open>track_B\<close> (position 1) current: the state
  after \<open>playTrack(track_B, [track_A, track_B, track_A])\<close>.
\<close>

definition at_B :: player where
  "at_B = initial_player\<lparr>localQueue := [track_A, track_B, track_A], localIndex := 1,
            localTrack := Some track_B\<rparr>"

text \<open>The state after \<open>seek(100)\<close> on the freshly mounted provider.\<close>

definition overshoot_player :: player where
  "overshoot_player =
     initial_player\<lparr>audioRef := Some [SetVolume (1 / 2), SetCurrentTime 100],
                    previewState := initial_preview\<lparr>preview_progress := 100\<rparr>\<rparr>"

text \<open>The remote backend streaming \<open>track_A\<close>, half a second before its end.\<close>

definition streaming_player :: player where
  "streaming_player =
     initial_player\<lparr>spotifyPlayer :=
       \<lparr>state = (ready_state ''dev1'')\<lparr>isActive := True, isPaused := False,
            currentTrack := Some track_A, position := 199500, duration := 200000\<rparr>,
        playerRef = Some [], requests = []\<rparr>\<rparr>"


text \<open>A \<open>player_state_changed\<close> payload at 5 s with no current track.\<close>

definition lost_track :: sdk_state where
  "lost_track = \<lparr>paused = False, sdk_position = 5000, track_window = None\<rparr>"


section \<open>Facts about the helpers\<close>

lemmas example_defs = initial_player_def initial_remote_def initial_PlayerState_def
  initial_preview_def track_A_def track_B_def no_album_def fulfilled_def

lemma findIndex_lower: "- 1 \<le> findIndex P xs"
  by (induction xs) (auto simp: Let_def)

lemma findIndex_neg_iff: "findIndex P xs < 0 \<longleftrightarrow> (\<forall>x \<in> set xs. \<not> P x)"
  using findIndex_lower [of P] by (induction xs) (auto simp: Let_def)

lemma findIndex_first:
  "0 \<le> findIndex P xs \<Longrightarrow>
     nat (findIndex P xs) < length xs \<and> P (xs ! nat (findIndex P xs)) \<and>
     (\<forall>j < nat (findIndex P xs). \<not> P (xs ! j))"
proof (induction xs)
  case Nil
  then show ?case by simp
next
  case (Cons x xs)
  show ?case
  proof (cases "P x")
    case True
    then show ?thesis by simp
  next
    case False
    with Cons.prems have nn: "0 \<le> findIndex P xs"
      by (simp add: Let_def split: if_splits)
    from Cons.IH [OF nn] have ih:
      "nat (findIndex P xs) < length xs" "P (xs ! nat (findIndex P xs))"
      "\<forall>j < nat (findIndex P xs). \<not> P (xs ! j)" by auto
    from False nn have eq: "findIndex P (x # xs) = findIndex P xs + 1"
      by (simp add: Let_def)
    have n: "nat (findIndex P xs + 1) = Suc (nat (findIndex P xs))"
      using nn by simp
    show ?thesis
      unfolding eq n using ih False by (auto simp: nth_Cons split: nat.splits)
  qed
qed

lemma findIndex_distinct:
  "distinct (map f xs) \<Longrightarrow> i < length xs \<Longrightarrow> findIndex (\<lambda>u. f u = f (xs ! i)) xs = int i"
proof (induction xs arbitrary: i)
  case Nil
  then show ?case by simp
next
  case (Cons x xs)
  show ?case
  proof (cases i)
    case 0
    then show ?thesis by simp
  next
    case (Suc k)
    with Cons.prems have k: "k < length xs" and d: "distinct (map f xs)"
      and nx: "f x \<noteq> f (xs ! k)" by auto
    from Cons.IH [OF d k] show ?thesis using Suc nx by (simp add: Let_def)
  qed
qed


section \<open>Authority and dispatch\<close>


lemma premium_dispatch:
  assumes "isPremiumPlayer p"
  shows "handleSetVolume env v p =
           Inr (p\<lparr>spotifyPlayer := spotifyPlayer_setVolume (resolved env) v (spotifyPlayer p)\<rparr>)"
    and "seek time p =
           Inr (p\<lparr>spotifyPlayer := spotifyPlayer_seek (time * 1000) (spotifyPlayer p)\<rparr>)"
    and "togglePlay env p =
           Inr (p\<lparr>spotifyPlayer := spotifyPlayer_togglePlay (spotifyPlayer p)\<rparr>)"
    and "handleNextTrack env p =
           Inr (p\<lparr>spotifyPlayer := spotifyPlayer_nextTrack (spotifyPlayer p)\<rparr>)"
    and "handlePreviousTrack env p =
           Inr (p\<lparr>spotifyPlayer := spotifyPlayer_previousTrack (spotifyPlayer p)\<rparr>)"
    and "playTrack env t None p =
           Inr (p\<lparr>localTrack := Some t,
                  spotifyPlayer := spotifyPlayer_play (token env)
                    (''spotify:track:'' @ track_id t) None (spotifyPlayer p)\<rparr>)"
  using assms
  by (simp_all add: handleSetVolume_def seek_def togglePlay_def handleNextTrack_def
      handlePreviousTrack_def playTrack_def)

lemma playTrack_local_remote_untouched:
  "\<not> isPremiumPlayer p \<Longrightarrow> playTrack env t q p = Inr p' \<Longrightarrow>
     spotifyPlayer p' = spotifyPlayer p"
  by (auto simp: playTrack_def audio_send_def Let_def split: option.splits if_splits)



lemma local_seek:
  "\<not> isPremiumPlayer p \<Longrightarrow> audioRef p = Some sent \<Longrightarrow>
     seek time p =
       Inr (p\<lparr>audioRef := Some (sent @ [SetCurrentTime time]),
              previewState := (previewState p)\<lparr>preview_progress := time\<rparr>\<rparr>)"
  by (simp add: seek_def audio_send_def Let_def)


lemma local_no_audio:
  assumes "\<not> isPremiumPlayer p" "audioRef p = None"
  shows "handleSetVolume env v p = Inr p" and "seek time p = Inr p"
    and "togglePlay env p = Inr p"
  using assms by (simp_all add: handleSetVolume_def seek_def togglePlay_def)



lemma local_next:
  "\<not> isPremiumPlayer p \<Longrightarrow>
     handleNextTrack env p =
       (if localQueue p = [] then Inr p
        else playTrack env (localQueue p ! ((localIndex p + 1) mod length (localQueue p)))
               (Some (localQueue p)) p)"
  by (simp add: handleNextTrack_def at_index_def Let_def)

lemma local_previous:
  "\<not> isPremiumPlayer p \<Longrightarrow>
     handlePreviousTrack env p =
       (if localQueue p = [] then Inr p
        else if (if localIndex p = 0 then length (localQueue p) - 1 else localIndex p - 1)
                  < length (localQueue p)
        then playTrack env
               (localQueue p !
                  (if localIndex p = 0 then length (localQueue p) - 1 else localIndex p - 1))
               (Some (localQueue p)) p
        else Inl TypeError)"
  by (simp add: handlePreviousTrack_def at_index_def Let_def)






section \<open>Remote listeners\<close>

text \<open>
  Claim C9. On a mounted adapter the \<open>not_ready\<close> listener returns the previous state
  with \<open>isReady\<close> set to false and every other field as it was, whatever the previous
  state (also one whose \<open>deviceId\<close> was never set). The device id is retained, and
  the remote backend is not authoritative afterwards.
\<close>

theorem not_ready_keeps_deviceId:
  "not_ready_listener True device_id prev = Inr (prev\<lparr>isReady := False\<rparr>) \<and>
   deviceId (prev\<lparr>isReady := False\<rparr>) = deviceId prev \<and>
   \<not> isPremiumPlayer
       (p\<lparr>spotifyPlayer := (spotifyPlayer p)\<lparr>state := prev\<lparr>isReady := False\<rparr>\<rparr>\<rparr>)"
  by (simp add: not_ready_listener_def isPremiumPlayer_def)

theorem not_ready_keeps_deviceId_witness:
  "not_ready_listener True ''dev1'' (ready_state ''dev1'') =
     Inr \<lparr>deviceId = Some ''dev1'', isReady = False, isActive = False, isPaused = True,
          currentTrack = None, position = 0, duration = 0, volume = 1 / 2\<rparr> \<and>
   not_ready_listener True ''dev1'' initial_PlayerState = Inr initial_PlayerState"
  using not_ready_keeps_deviceId [of "''dev1''" "ready_state ''dev1''" initial_player]
    not_ready_keeps_deviceId [of "''dev1''" initial_PlayerState initial_player]
  by (simp add: ready_state_def initial_PlayerState_def)

text \<open>
  Claim C6. On a mounted adapter, \<open>player_state_changed\<close> with a \<open>null\<close> payload returns
  the previous state with \<open>isActive\<close> set to false; track, position, duration, paused
  flag, volume, device id and readiness are the previous ones.
\<close>

theorem null_payload_clears_isActive_only:
  "player_state_changed_listener True None prev = Inr (prev\<lparr>isActive := False\<rparr>)"
  by (simp add: player_state_changed_listener_def)

theorem null_payload_clears_isActive_only_witness:
  "player_state_changed_listener True None
     \<lparr>deviceId = Some ''dev1'', isReady = True, isActive = True, isPaused = False,
      currentTrack = Some track_A, position = 42000, duration = 200000, volume = 4 / 5\<rparr> =
   Inr \<lparr>deviceId = Some ''dev1'', isReady = True, isActive = False, isPaused = False,
        currentTrack = Some track_A, position = 42000, duration = 200000, volume = 4 / 5\<rparr>"
  using null_payload_clears_isActive_only
    [of "\<lparr>deviceId = Some ''dev1'', isReady = True, isActive = True, isPaused = False,
      currentTrack = Some track_A, position = 42000, duration = 200000, volume = 4 / 5\<rparr>"]
  by simp


section \<open>playTrack and the queue\<close>

text \<open>
  Claim C10. \<open>playTrack(track)\<close> without a queue returns normally; the stored queue and
  the current index are the previous ones and the locally tracked track is \<open>track\<close>,
  wherever (or whether) \<open>track\<close> occurs in the queue.
\<close>

theorem playTrack_without_queue_keeps_queue:
  "\<exists>p'. playTrack env t None p = Inr p' \<and> localQueue p' = localQueue p \<and>
        localIndex p' = localIndex p \<and> localTrack p' = Some t"
  by (simp add: playTrack_def audio_send_def Let_def split: option.splits)

theorem playTrack_without_queue_keeps_queue_witness:
  "playTrack fulfilled track_C None at_B =
     Inr (at_B\<lparr>localTrack := Some track_C,
            audioRef := Some [SetVolume (1 / 2), SetSrc ''https://p.example/c.mp3'', Play],
            previewState := initial_preview\<lparr>preview_isPlaying := True\<rparr>\<rparr>) \<and>
   localQueue at_B = [track_A, track_B, track_A] \<and> localIndex at_B = 1"
  using playTrack_without_queue_keeps_queue [of fulfilled track_C at_B]
  by (simp add: playTrack_def at_B_def track_C_def isPremiumPlayer_def truthy_def audio_send_def
      example_defs Let_def)

text \<open>
  Claim C7. \<open>playTrack(t, q)\<close> returns normally with \<open>q\<close> as the queue. If some element
  of \<open>q\<close> has the id of \<open>t\<close>, the current index is the first position holding that id;
  otherwise it is 0.
\<close>

theorem playTrack_with_queue_sets_index:
  "\<exists>p'. playTrack env t (Some q) p = Inr p' \<and> localQueue p' = q \<and>
     (if \<exists>u \<in> set q. track_id u = track_id t
      then localIndex p' < length q \<and> track_id (q ! localIndex p') = track_id t \<and>
           (\<forall>j < localIndex p'. track_id (q ! j) \<noteq> track_id t)
      else localIndex p' = 0)"
proof -
  let ?idx = "findIndex (\<lambda>u. track_id u = track_id t) q"
  let ?i = "if 0 \<le> ?idx then nat ?idx else 0"
  have shape: "\<exists>p'. playTrack env t (Some q) p = Inr p' \<and> localQueue p' = q \<and>
      localIndex p' = ?i"
    by (simp add: playTrack_def audio_send_def Let_def split: option.splits)
  have idx: "if \<exists>u \<in> set q. track_id u = track_id t
      then ?i < length q \<and> track_id (q ! ?i) = track_id t \<and>
           (\<forall>j < ?i. track_id (q ! j) \<noteq> track_id t)
      else ?i = 0"
  proof (cases "\<exists>u \<in> set q. track_id u = track_id t")
    case True
    then have "\<not> ?idx < 0" by (simp add: findIndex_neg_iff)
    then have nn: "0 \<le> ?idx" by simp
    from findIndex_first [OF nn] True nn show ?thesis by simp
  next
    case False
    then have "?idx < 0" by (simp add: findIndex_neg_iff)
    with False show ?thesis by simp
  qed
  from shape obtain p' where "playTrack env t (Some q) p = Inr p'" "localQueue p' = q"
    "localIndex p' = ?i" by blast
  with idx show ?thesis by auto
qed

theorem playTrack_with_queue_sets_index_witness:
  "playTrack fulfilled track_B (Some [track_A, track_B, track_A]) initial_player = Inr at_B \<and>
   localIndex at_B = 1 \<and>
   map_sum id localIndex
     (playTrack fulfilled track_C (Some [track_A, track_B, track_A]) at_B) = Inr 0 \<and>
   map_sum id localQueue
     (playTrack fulfilled track_C (Some [track_A, track_B]) at_B) = Inr [track_A, track_B]"
  using playTrack_with_queue_sets_index [of fulfilled track_B "[track_A, track_B, track_A]" initial_player]
    playTrack_with_queue_sets_index [of fulfilled track_C "[track_A, track_B, track_A]" at_B]
    playTrack_with_queue_sets_index [of fulfilled track_C "[track_A, track_B]" at_B]
  by (simp add: playTrack_def at_B_def track_C_def isPremiumPlayer_def truthy_def audio_send_def
      example_defs Let_def)


lemma playing_A_reached:
  "playTrack fulfilled track_A (Some [track_A, track_B]) initial_player = Inr playing_A"
  by (simp add: playTrack_def playing_A_def isPremiumPlayer_def truthy_def audio_send_def
      example_defs Let_def)

text \<open>
  Claim C3, as the code has it. With the local fallback authoritative, \<open>playTrack\<close> on a
  track without a (non-empty) preview URL returns normally and touches neither the audio
  element nor the preview state: \<open>isPlaying\<close> is what it was before the call, so it is
  false afterwards when nothing was playing.
\<close>

theorem playTrack_without_preview_keeps_preview_state:
  "\<not> isPremiumPlayer p \<and> \<not> truthy (preview_url t) \<longrightarrow>
     (\<exists>p'. playTrack env t q p = Inr p' \<and> previewState p' = previewState p \<and>
           audioRef p' = audioRef p \<and> merged_isPlaying p' = merged_isPlaying p \<and>
           (\<not> merged_isPlaying p \<longrightarrow> \<not> merged_isPlaying p'))"
  by (auto simp: playTrack_def Let_def merged_isPlaying_def isPremiumPlayer_def
      split: option.splits)

theorem playTrack_without_preview_keeps_preview_state_witness:
  "\<not> isPremiumPlayer initial_player \<and> \<not> truthy (preview_url track_B) \<and>
   playTrack fulfilled track_B None initial_player =
     Inr (initial_player\<lparr>localTrack := Some track_B\<rparr>) \<and>
   \<not> merged_isPlaying (initial_player\<lparr>localTrack := Some track_B\<rparr>)"
  using playTrack_without_preview_keeps_preview_state [of initial_player track_B fulfilled None]
  by (simp add: playTrack_def isPremiumPlayer_def truthy_def merged_isPlaying_def example_defs)

text \<open>
  Claim C3 as the spec words it fails when a preview is already playing: after
  \<open>playTrack(track_A, [track_A, track_B])\<close> the fallback plays, and \<open>playTrack(track_B)\<close>
  (no preview URL) leaves \<open>isPlaying\<close> true.
\<close>

theorem playTrack_without_preview_still_playing:
  "playTrack fulfilled track_A (Some [track_A, track_B]) initial_player = Inr playing_A \<and>
   \<not> isPremiumPlayer playing_A \<and> preview_url track_B = None \<and>
   playTrack fulfilled track_B None playing_A = Inr (playing_A\<lparr>localTrack := Some track_B\<rparr>) \<and>
   merged_isPlaying (playing_A\<lparr>localTrack := Some track_B\<rparr>)"
  by (simp add: playTrack_def playing_A_def isPremiumPlayer_def truthy_def audio_send_def
      merged_isPlaying_def example_defs Let_def)


section \<open>Auto-advance at the end of a clip\<close>

text \<open>
  Claim C2, as the code has it. When a clip ends with a non-empty queue, the next track
  is the one at the wrap-around successor of the current index. If it has a (non-empty)
  preview URL, the audio element gets that source and \<open>play()\<close>, the current index and
  the current track become the next ones and \<open>isPlaying\<close> is true. If it has none,
  \<open>isPlaying\<close> becomes false and nothing else changes: the index and the track stay,
  no audio command is sent. Neither case throws.
\<close>

theorem handleEnded_advances_only_to_playable:
  "audioRef p = Some sent \<and> localQueue p \<noteq> [] \<longrightarrow>
     (\<exists>t. at_index (localQueue p) ((localIndex p + 1) mod length (localQueue p)) = Some t \<and>
       (if truthy (preview_url t)
        then handleEnded p =
               Inr (p\<lparr>localIndex := (localIndex p + 1) mod length (localQueue p),
                      localTrack := Some t,
                      audioRef := Some (sent @ [SetSrc (the (preview_url t)), Play]),
                      previewState := (previewState p)\<lparr>preview_isPlaying := True\<rparr>\<rparr>)
        else handleEnded p =
               Inr (p\<lparr>previewState := (previewState p)\<lparr>preview_isPlaying := False\<rparr>\<rparr>)))"
  by (auto simp: handleEnded_def at_index_def audio_send_def Let_def)

theorem handleEnded_advances_only_to_playable_witness:
  "handleEnded (playing_A\<lparr>localIndex := 1, localTrack := Some track_B\<rparr>) =
     Inr (playing_A\<lparr>audioRef := Some [SetVolume (1 / 2), SetSrc ''https://p.example/a.mp3'',
            Play, SetSrc ''https://p.example/a.mp3'', Play]\<rparr>) \<and>
   handleEnded playing_A = Inr (playing_A\<lparr>previewState := initial_preview\<rparr>)"
  using handleEnded_advances_only_to_playable
      [of "playing_A\<lparr>localIndex := 1, localTrack := Some track_B\<rparr>"
          "[SetVolume (1 / 2), SetSrc ''https://p.example/a.mp3'', Play]"]
    handleEnded_advances_only_to_playable
      [of playing_A "[SetVolume (1 / 2), SetSrc ''https://p.example/a.mp3'', Play]"]
  by (simp add: playing_A_def at_index_def truthy_def example_defs)

text \<open>
  Claim C2 as the spec words it fails on the queue \<open>[track_A, track_B]\<close> when the clip of
  \<open>track_A\<close> ends: the next track \<open>track_B\<close> has no preview URL, and the current index
  and track are not advanced to it.
\<close>

theorem handleEnded_does_not_advance_without_preview:
  "at_index (localQueue playing_A) ((localIndex playing_A + 1) mod length (localQueue playing_A))
     = Some track_B \<and>
   preview_url track_B = None \<and>
   handleEnded playing_A = Inr (playing_A\<lparr>previewState := initial_preview\<rparr>) \<and>
   localIndex (playing_A\<lparr>previewState := initial_preview\<rparr>) \<noteq>
     (localIndex playing_A + 1) mod length (localQueue playing_A) \<and>
   localTrack (playing_A\<lparr>previewState := initial_preview\<rparr>) \<noteq> Some track_B"
  by (simp add: handleEnded_def playing_A_def at_index_def truthy_def example_defs Let_def)


section \<open>Next and previous\<close>

lemma playTrack_total: "\<exists>p'. playTrack env t q p = Inr p'"
  by (simp add: playTrack_def Let_def)

lemma playTrack_local_queue:
  "playTrack env t (Some q) p = Inr p' \<Longrightarrow>
     localQueue p' = q \<and>
     localIndex p' = (if 0 \<le> findIndex (\<lambda>u. track_id u = track_id t) q
                      then nat (findIndex (\<lambda>u. track_id u = track_id t) q) else 0)"
  by (auto simp: playTrack_def audio_send_def Let_def split: option.splits if_splits)

lemma playTrack_distinct_index:
  assumes "distinct (map track_id q)" "j < length q" "playTrack env (q ! j) (Some q) p = Inr p'"
  shows "localQueue p' = q \<and> localIndex p' = j"
  using playTrack_local_queue [OF assms(3)] findIndex_distinct [OF assms(1,2)] by simp

lemma previous_of_next:
  assumes "0 < (n::nat)"
  shows "(if (i + 1) mod n = 0 then n - 1 else (i + 1) mod n - 1) = i mod n"
proof -
  have "i mod n < n" using assms by simp
  then show ?thesis using assms by (auto simp: mod_Suc)
qed

lemma not_premium_after_playTrack:
  "\<not> isPremiumPlayer p \<Longrightarrow> playTrack env t q p = Inr p' \<Longrightarrow> \<not> isPremiumPlayer p'"
  using playTrack_local_remote_untouched [of p env t q p'] by (simp add: isPremiumPlayer_def)

lemma handlePreviousTrack_local:
  assumes "\<not> isPremiumPlayer p"
    and "k = (if localIndex p = 0 then length (localQueue p) - 1 else localIndex p - 1)"
    and "k < length (localQueue p)"
  shows "handlePreviousTrack env p = playTrack env (localQueue p ! k) (Some (localQueue p)) p"
proof -
  have "0 < length (localQueue p)" using assms(3) by (cases "localQueue p") simp_all
  moreover have "at_index (localQueue p) k = Some (localQueue p ! k)"
    using assms(3) by (simp add: at_index_def)
  ultimately show ?thesis
    unfolding handlePreviousTrack_def Let_def assms(2) [symmetric] using assms(1) by simp
qed

text \<open>
  On a queue whose track ids are pairwise distinct, \<open>next\<close> moves the index to its
  wrap-around successor and \<open>previous\<close> brings it back.
\<close>

lemma next_then_previous_distinct:
  assumes loc: "\<not> isPremiumPlayer p" and ne: "localQueue p \<noteq> []"
    and d: "distinct (map track_id (localQueue p))"
  shows "\<exists>p1 p2. handleNextTrack env p = Inr p1 \<and> handlePreviousTrack env' p1 = Inr p2 \<and>
           localQueue p2 = localQueue p \<and>
           localIndex p1 = (localIndex p + 1) mod length (localQueue p) \<and>
           localIndex p2 = localIndex p mod length (localQueue p)"
proof -
  let ?q = "localQueue p"
  let ?n = "length ?q"
  let ?j = "(localIndex p + 1) mod ?n"
  have n: "0 < ?n" using ne by simp
  then have j: "?j < ?n" by simp
  obtain p1 where p1: "playTrack env (?q ! ?j) (Some ?q) p = Inr p1"
    using playTrack_total by blast
  have next_eq: "handleNextTrack env p = Inr p1"
    using loc n j p1 by (simp add: handleNextTrack_def at_index_def Let_def)
  from playTrack_distinct_index [OF d j p1]
  have q1: "localQueue p1 = ?q" and i1: "localIndex p1 = ?j" by simp_all
  have loc1: "\<not> isPremiumPlayer p1" by (rule not_premium_after_playTrack [OF loc p1])
  let ?k = "if ?j = 0 then ?n - 1 else ?j - 1"
  have k_eq: "?k = localIndex p mod ?n" by (rule previous_of_next [OF n])
  have m: "localIndex p mod ?n < ?n" using n by simp
  have k: "?k < ?n" by (rule ord_eq_less_trans [OF k_eq m])
  obtain p2 where p2: "playTrack env' (?q ! ?k) (Some ?q) p1 = Inr p2"
    using playTrack_total by blast
  have "handlePreviousTrack env' p1 = playTrack env' (localQueue p1 ! ?k) (Some (localQueue p1)) p1"
    by (rule handlePreviousTrack_local [OF loc1]) (simp_all only: q1 i1 k)
  then have prev_eq: "handlePreviousTrack env' p1 = Inr p2"
    by (simp only: q1 p2)
  from playTrack_distinct_index [OF d k p2] k_eq
  have "localQueue p2 = ?q" "localIndex p2 = localIndex p mod ?n" by simp_all
  with next_eq prev_eq i1 show ?thesis by blast
qed

text \<open>
  Claim C4 at a queue that holds the same track twice. \<open>next\<close> and \<open>previous\<close> compute
  the new index by wrap-around but hand the track, not the index, to \<open>playTrack\<close>, which
  looks the index up again by id and finds the first occurrence. On
  \<open>[track_A, track_B, track_A]\<close> at index 1, \<open>next\<close> lands on 0 instead of 2, and
  \<open>next\<close> then \<open>previous\<close> ends at 0 instead of 1.
\<close>

theorem next_then_previous_duplicate_id:
  "playTrack fulfilled track_B (Some [track_A, track_B, track_A]) initial_player = Inr at_B \<and>
   \<not> isPremiumPlayer at_B \<and> length (localQueue at_B) = 3 \<and> localIndex at_B = 1 \<and>
   map_sum id localIndex (handleNextTrack fulfilled at_B) = Inr 0 \<and>
   map_sum id localIndex
     (and_then (handleNextTrack fulfilled at_B) (handlePreviousTrack fulfilled)) = Inr 0"
  by (simp add: playTrack_def handleNextTrack_def handlePreviousTrack_def and_then_def at_B_def
      isPremiumPlayer_def truthy_def audio_send_def at_index_def example_defs Let_def)


section \<open>Progress and duration\<close>

lemma backends_bounded_initial: "backends_bounded initial_player"
  by (simp add: backends_bounded_def or_number_def example_defs)

lemma backends_bounded_merged: "backends_bounded p \<Longrightarrow> progress_bounded p"
  by (cases "isPremiumPlayer p")
    (simp_all add: backends_bounded_def progress_bounded_def merged_progress_def
      merged_duration_def divide_right_mono)

lemma backends_bounded_cong:
  "readings p' = readings p \<Longrightarrow> backends_bounded p' = backends_bounded p"
  by (simp add: readings_def backends_bounded_def)

lemma state_after_send: "state (sdk_send c r) = state r"
  by (simp add: sdk_send_def split: option.splits)

lemma state_after_play: "state (spotifyPlayer_play tok uri c r) = state r"
  by (simp add: spotifyPlayer_play_def split: option.splits)

lemma remote_call_keeps_bound:
  "state r = state (spotifyPlayer p) \<Longrightarrow>
     backends_bounded (p\<lparr>spotifyPlayer := r\<rparr>) = backends_bounded p"
  by (simp add: backends_bounded_def)

lemma readings_after_setVolume:
  "readings (p\<lparr>spotifyPlayer := spotifyPlayer_setVolume ok v (spotifyPlayer p)\<rparr>) = readings p"
  by (simp add: readings_def spotifyPlayer_setVolume_def Let_def split: option.splits)

lemma listeners_keep_bound:
  assumes "ready_listener True dev (state (spotifyPlayer p)) = Inr st' \<or>
           not_ready_listener True dev (state (spotifyPlayer p)) = Inr st' \<or>
           player_state_changed_listener True None (state (spotifyPlayer p)) = Inr st'"
  shows "backends_bounded (set_state st' p) = backends_bounded p"
  using assms
  by (auto simp: ready_listener_def not_ready_listener_def player_state_changed_listener_def
      set_state_def backends_bounded_def)

lemma position_interval_keeps_bound:
  assumes "backends_bounded p"
  shows "backends_bounded (set_state (position_interval (state (spotifyPlayer p))) p)"
proof -
  let ?st = "state (spotifyPlayer p)"
  have "0 \<le> position ?st" "position ?st \<le> duration ?st"
    using assms by (simp_all add: backends_bounded_def)
  then have "0 \<le> position (position_interval ?st)"
    "position (position_interval ?st) \<le> duration (position_interval ?st)"
    by (simp_all add: position_interval_def)
  then show ?thesis using assms by (simp add: backends_bounded_def set_state_def)
qed

lemma state_changed_bound:
  assumes "backends_bounded p"
  shows "\<exists>st'. player_state_changed_listener True (Some ps) (state (spotifyPlayer p)) = Inr st' \<and>
           backends_bounded (set_state st' p) =
             (0 \<le> sdk_position ps \<and>
              sdk_position ps \<le>
                (case (case track_window ps of None \<Rightarrow> None | Some w \<Rightarrow> w) of
                   None \<Rightarrow> 0 | Some c \<Rightarrow> sdk_duration_ms c))"
  using assms
  by (simp add: player_state_changed_listener_def Let_def set_state_def backends_bounded_def
      or_number_def split: option.splits)

lemma handleTimeUpdate_bound:
  assumes "backends_bounded p"
  shows "\<exists>p'. handleTimeUpdate time p = Inr p' \<and>
           backends_bounded p' =
             (audioRef p = None \<or>
              0 \<le> time \<and> time \<le> or_number (preview_duration (previewState p)) 30)"
  using assms
  by (cases "audioRef p") (simp_all add: handleTimeUpdate_def backends_bounded_def)

lemma handleLoadedMetadata_bound:
  assumes "backends_bounded p"
  shows "\<exists>p'. handleLoadedMetadata d p = Inr p' \<and>
           backends_bounded p' =
             (audioRef p = None \<or> preview_progress (previewState p) \<le> or_number d 30)"
  using assms
  by (cases "audioRef p") (simp_all add: handleLoadedMetadata_def backends_bounded_def)

lemma seek_bound:
  assumes "backends_bounded p"
  shows "\<exists>p'. seek time p = Inr p' \<and>
           backends_bounded p' =
             (isPremiumPlayer p \<or> audioRef p = None \<or>
              0 \<le> time \<and> time \<le> or_number (preview_duration (previewState p)) 30)"
proof (cases "isPremiumPlayer p")
  case True
  have "state (spotifyPlayer_seek (time * 1000) (spotifyPlayer p)) = state (spotifyPlayer p)"
    by (simp add: spotifyPlayer_seek_def state_after_send)
  then show ?thesis
    using True assms by (simp add: premium_dispatch(2) remote_call_keeps_bound)
next
  case False
  show ?thesis
  proof (cases "audioRef p")
    case None
    with False assms show ?thesis by (simp add: local_no_audio(2))
  next
    case (Some sent)
    with False assms show ?thesis by (simp add: local_seek backends_bounded_def)
  qed
qed

lemma playTrack_readings:
  assumes "playTrack env t q p = Inr p'"
  shows "readings p' = readings p \<or>
         readings p' = (position (state (spotifyPlayer p)), duration (state (spotifyPlayer p)),
                     0, preview_duration (previewState p))"
  using assms
  by (cases q)
    (auto simp: playTrack_def readings_def state_after_play audio_send_def Let_def
      split: if_splits option.splits)

lemma playTrack_keeps_bound:
  assumes "backends_bounded p" "playTrack env t q p = Inr p'"
  shows "backends_bounded p'"
proof -
  from playTrack_readings [OF assms(2)] show ?thesis
  proof
    assume "readings p' = readings p"
    then have "backends_bounded p' = backends_bounded p" by (rule backends_bounded_cong)
    with assms(1) show ?thesis by simp
  next
    assume "readings p' = (position (state (spotifyPlayer p)), duration (state (spotifyPlayer p)),
                     0, preview_duration (previewState p))"
    then show ?thesis using assms(1) by (simp add: readings_def backends_bounded_def)
  qed
qed

lemma togglePlay_readings: "togglePlay env p = Inr p' \<Longrightarrow> readings p' = readings p"
  by (auto simp: togglePlay_def readings_def spotifyPlayer_togglePlay_def state_after_send
      audio_send_def Let_def split: if_splits option.splits)

lemma handleEnded_readings: "handleEnded p = Inr p' \<Longrightarrow> readings p' = readings p"
  by (auto simp: handleEnded_def readings_def audio_send_def Let_def
      split: if_splits option.splits)

lemma handleError_readings: "handleError p = Inr p' \<Longrightarrow> readings p' = readings p"
  by (auto simp: handleError_def readings_def split: option.splits)

lemma handleSetVolume_readings:
  assumes "handleSetVolume env v p = Inr p'"
  shows "readings p' = readings p"
proof (cases "isPremiumPlayer p")
  case True
  with assms have
    "p' = p\<lparr>spotifyPlayer := spotifyPlayer_setVolume (resolved env) v (spotifyPlayer p)\<rparr>"
    by (simp add: premium_dispatch(1))
  then show ?thesis by (simp only: readings_after_setVolume)
next
  case False
  then show ?thesis
    using assms
    by (auto simp: handleSetVolume_def readings_def audio_send_def Let_def
        split: if_splits option.splits)
qed

lemma handleNextTrack_keeps_bound:
  assumes "backends_bounded p" "handleNextTrack env p = Inr p'"
  shows "backends_bounded p'"
proof (cases "isPremiumPlayer p")
  case True
  with assms(2) have p': "p' = p\<lparr>spotifyPlayer := spotifyPlayer_nextTrack (spotifyPlayer p)\<rparr>"
    by (simp add: premium_dispatch(4))
  have "backends_bounded p' = backends_bounded p"
    unfolding p'
    by (rule remote_call_keeps_bound) (simp add: spotifyPlayer_nextTrack_def state_after_send)
  with assms(1) show ?thesis by simp
next
  case False
  show ?thesis
  proof (cases "localQueue p = []")
    case True
    with False assms show ?thesis by (simp add: local_next)
  next
    case nonempty: False
    with False assms(2) have "playTrack env
        (localQueue p ! ((localIndex p + 1) mod length (localQueue p)))
        (Some (localQueue p)) p = Inr p'"
      by (simp add: local_next)
    then show ?thesis by (rule playTrack_keeps_bound [OF assms(1)])
  qed
qed

lemma handlePreviousTrack_keeps_bound:
  assumes "backends_bounded p" "handlePreviousTrack env p = Inr p'"
  shows "backends_bounded p'"
proof (cases "isPremiumPlayer p")
  case True
  with assms(2) have p': "p' = p\<lparr>spotifyPlayer := spotifyPlayer_previousTrack (spotifyPlayer p)\<rparr>"
    by (simp add: premium_dispatch(5))
  have "backends_bounded p' = backends_bounded p"
    unfolding p'
    by (rule remote_call_keeps_bound)
      (simp add: spotifyPlayer_previousTrack_def state_after_send)
  with assms(1) show ?thesis by simp
next
  case loc: False
  show ?thesis
  proof (cases "localQueue p = []")
    case True
    with loc assms show ?thesis by (simp add: local_previous)
  next
    case nonempty: False
    let ?k = "if localIndex p = 0 then length (localQueue p) - 1 else localIndex p - 1"
    have eq: "handlePreviousTrack env p =
        (if ?k < length (localQueue p)
         then playTrack env (localQueue p ! ?k) (Some (localQueue p)) p
         else Inl TypeError)"
      using nonempty by (simp only: local_previous [OF loc] if_False)
    show ?thesis
    proof (cases "?k < length (localQueue p)")
      case True
      with eq assms(2)
      have "playTrack env (localQueue p ! ?k) (Some (localQueue p)) p = Inr p'"
        by (simp only: if_True)
      then show ?thesis by (rule playTrack_keeps_bound [OF assms(1)])
    next
      case False
      with eq assms(2) have "Inl TypeError = (Inr p' :: error + player)"
        by (simp only: if_False)
      then show ?thesis by simp
    qed
  qed
qed

lemma actions_keep_bound:
  assumes "backends_bounded p"
    and "handleEnded p = Inr p' \<or> handleError p = Inr p' \<or> playTrack env t q p = Inr p' \<or>
         togglePlay env p = Inr p' \<or> handleNextTrack env p = Inr p' \<or>
         handlePreviousTrack env p = Inr p' \<or> handleSetVolume env v p = Inr p'"
  shows "backends_bounded p'"
  using assms backends_bounded_cong [of p' p] handleEnded_readings [of p p']
    handleError_readings [of p p'] playTrack_keeps_bound [of p env t q p']
    togglePlay_readings [of env p p'] handleNextTrack_keeps_bound [of p env p']
    handlePreviousTrack_keeps_bound [of p env p'] handleSetVolume_readings [of env v p p']
  by blast

text \<open>
  Claim C5, as the code has it. Call a state bounded when each backend's own values
  satisfy \<open>0 \<le> progress \<le> duration\<close>; the freshly mounted provider is bounded, and in a
  bounded state the merged read model satisfies the bound under either authority.

  From a bounded state, the \<open>ready\<close>, \<open>not_ready\<close> and null \<open>player_state_changed\<close>
  listeners, the periodic remote tick, the audio element's \<open>ended\<close> and \<open>error\<close>
  events, and \<open>playTrack\<close>, \<open>togglePlay\<close>, \<open>next\<close>, \<open>previous\<close> and \<open>setVolume\<close> lead to
  a bounded state, whenever they return.

  Four updates store a value from outside without clamping it, and lead to a bounded
  state exactly when that value is in range: a non-null \<open>player_state_changed\<close> (its
  position between 0 and the duration of its current track, 0 without one), the audio
  element's time update (its current time between 0 and the stored duration), its
  loaded-metadata event (the stored progress at most the new duration), and \<open>seek\<close> on
  the local fallback (the time between 0 and the stored duration). A time update, a
  loaded-metadata event or a \<open>seek\<close> without an audio element, and a \<open>seek\<close> with the
  remote backend authoritative, change neither progress nor duration.
\<close>

theorem progress_bound_by_operation:
  "backends_bounded initial_player \<and>
   (backends_bounded p \<longrightarrow>
      progress_bounded p \<and>
      (\<forall>st'. ready_listener True dev (state (spotifyPlayer p)) = Inr st' \<or>
             not_ready_listener True dev (state (spotifyPlayer p)) = Inr st' \<or>
             player_state_changed_listener True None (state (spotifyPlayer p)) = Inr st' \<or>
             st' = position_interval (state (spotifyPlayer p)) \<longrightarrow>
             backends_bounded (set_state st' p)) \<and>
      (\<forall>p'. handleEnded p = Inr p' \<or> handleError p = Inr p' \<or>
            playTrack env t q p = Inr p' \<or> togglePlay env p = Inr p' \<or>
            handleNextTrack env p = Inr p' \<or> handlePreviousTrack env p = Inr p' \<or>
            handleSetVolume env v p = Inr p' \<longrightarrow>
            backends_bounded p') \<and>
      (\<exists>st'. player_state_changed_listener True (Some ps) (state (spotifyPlayer p)) = Inr st' \<and>
             backends_bounded (set_state st' p) =
               (0 \<le> sdk_position ps \<and>
                sdk_position ps \<le>
                  (case (case track_window ps of None \<Rightarrow> None | Some w \<Rightarrow> w) of
                     None \<Rightarrow> 0 | Some c \<Rightarrow> sdk_duration_ms c))) \<and>
      (\<exists>p'. handleTimeUpdate time p = Inr p' \<and>
            backends_bounded p' =
              (audioRef p = None \<or>
               0 \<le> time \<and> time \<le> or_number (preview_duration (previewState p)) 30)) \<and>
      (\<exists>p'. handleLoadedMetadata d p = Inr p' \<and>
            backends_bounded p' =
              (audioRef p = None \<or> preview_progress (previewState p) \<le> or_number d 30)) \<and>
      (\<exists>p'. seek time p = Inr p' \<and>
            backends_bounded p' =
              (isPremiumPlayer p \<or> audioRef p = None \<or>
               0 \<le> time \<and> time \<le> or_number (preview_duration (previewState p)) 30)))"
proof (intro conjI impI allI)
  show "backends_bounded initial_player" by (rule backends_bounded_initial)
next
  assume "backends_bounded p"
  then show "progress_bounded p" by (rule backends_bounded_merged)
next
  fix st'
  assume b: "backends_bounded p"
    and "ready_listener True dev (state (spotifyPlayer p)) = Inr st' \<or>
         not_ready_listener True dev (state (spotifyPlayer p)) = Inr st' \<or>
         player_state_changed_listener True None (state (spotifyPlayer p)) = Inr st' \<or>
         st' = position_interval (state (spotifyPlayer p))"
  then show "backends_bounded (set_state st' p)"
    using listeners_keep_bound [of dev p st'] position_interval_keeps_bound [OF b] by blast
next
  fix p'
  assume "backends_bounded p"
    and "handleEnded p = Inr p' \<or> handleError p = Inr p' \<or>
         playTrack env t q p = Inr p' \<or> togglePlay env p = Inr p' \<or>
         handleNextTrack env p = Inr p' \<or> handlePreviousTrack env p = Inr p' \<or>
         handleSetVolume env v p = Inr p'"
  then show "backends_bounded p'" by (rule actions_keep_bound)
next
  assume "backends_bounded p"
  then show "\<exists>st'. player_state_changed_listener True (Some ps) (state (spotifyPlayer p)) =
                 Inr st' \<and>
             backends_bounded (set_state st' p) =
               (0 \<le> sdk_position ps \<and>
                sdk_position ps \<le>
                  (case (case track_window ps of None \<Rightarrow> None | Some w \<Rightarrow> w) of
                     None \<Rightarrow> 0 | Some c \<Rightarrow> sdk_duration_ms c))"
    by (rule state_changed_bound)
next
  assume "backends_bounded p"
  then show "\<exists>p'. handleTimeUpdate time p = Inr p' \<and>
            backends_bounded p' =
              (audioRef p = None \<or>
               0 \<le> time \<and> time \<le> or_number (preview_duration (previewState p)) 30)"
    by (rule handleTimeUpdate_bound)
next
  assume "backends_bounded p"
  then show "\<exists>p'. handleLoadedMetadata d p = Inr p' \<and>
            backends_bounded p' =
              (audioRef p = None \<or> preview_progress (previewState p) \<le> or_number d 30)"
    by (rule handleLoadedMetadata_bound)
next
  assume "backends_bounded p"
  then show "\<exists>p'. seek time p = Inr p' \<and>
            backends_bounded p' =
              (isPremiumPlayer p \<or> audioRef p = None \<or>
               0 \<le> time \<and> time \<le> or_number (preview_duration (previewState p)) 30)"
    by (rule seek_bound)
qed

text \<open>
  On the streaming remote player the tick stops at the duration; on the fresh provider
  \<open>seek(12)\<close> and a loaded-metadata event with 29 s keep the bound.
\<close>

theorem progress_bound_by_operation_witness:
  "backends_bounded initial_player \<and> backends_bounded streaming_player \<and>
   progress_bounded streaming_player \<and>
   position (position_interval (state (spotifyPlayer streaming_player))) = 200000 \<and>
   backends_bounded
     (set_state (position_interval (state (spotifyPlayer streaming_player))) streaming_player) \<and>
   map_sum id backends_bounded (seek 12 initial_player) = Inr True \<and>
   map_sum id backends_bounded (handleLoadedMetadata 29 initial_player) = Inr True \<and>
   map_sum id backends_bounded (handleTimeUpdate 12 initial_player) = Inr True"
proof -
  note fresh =
    progress_bound_by_operation
      [of streaming_player "''dev1''" fulfilled track_A None "4 / 5" lost_track 12 29,
       THEN conjunct1]
  have streaming: "backends_bounded streaming_player"
    by (simp add: backends_bounded_def streaming_player_def ready_state_def or_number_def
        example_defs)
  note after =
    progress_bound_by_operation
      [of streaming_player "''dev1''" fulfilled track_A None "4 / 5" lost_track 12 29,
       THEN conjunct2, THEN mp, OF streaming]
  note merged = after [THEN conjunct1]
  note tick =
    after [THEN conjunct2, THEN conjunct1, THEN spec, THEN mp,
      OF disjI2 [OF disjI2 [OF disjI2 [OF refl]]]]
  have stop: "position (position_interval (state (spotifyPlayer streaming_player))) = 200000"
    by (simp add: position_interval_def streaming_player_def ready_state_def example_defs)
  have s: "map_sum id backends_bounded (seek 12 initial_player) = Inr True"
    by (simp add: seek_def isPremiumPlayer_def audio_send_def backends_bounded_def
        or_number_def example_defs Let_def)
  have m: "map_sum id backends_bounded (handleLoadedMetadata 29 initial_player) = Inr True"
    by (simp add: handleLoadedMetadata_def backends_bounded_def or_number_def example_defs)
  have u: "map_sum id backends_bounded (handleTimeUpdate 12 initial_player) = Inr True"
    by (simp add: handleTimeUpdate_def backends_bounded_def or_number_def example_defs)
  from fresh streaming merged stop tick s m u show ?thesis by (intro conjI)
qed

text \<open>
  Claim C5 as the spec words it fails at each of the four updates that store a value
  unclamped. On the fresh provider \<open>seek(100)\<close> gives progress 100 with the default
  duration 30. After a time update at 20 s, a loaded-metadata event with a duration of
  10 s leaves progress 20 above duration 10. After a loaded-metadata event with 29 s,
  a time update at 29.5 s leaves progress above duration. On the streaming remote
  player a \<open>player_state_changed\<close> at 5 s without a current track gives progress 5 with
  duration 0.
\<close>

theorem seek_past_duration_breaks_bound:
  "seek 100 initial_player = Inr overshoot_player \<and>
   merged_progress overshoot_player = 100 \<and> merged_duration overshoot_player = 30 \<and>
   \<not> (0 \<le> merged_progress overshoot_player \<and>
      merged_progress overshoot_player \<le> merged_duration overshoot_player) \<and>
   map_sum id progress_bounded (handleTimeUpdate 20 initial_player) = Inr True \<and>
   map_sum id progress_bounded
     (and_then (handleTimeUpdate 20 initial_player) (handleLoadedMetadata 10)) = Inr False \<and>
   map_sum id progress_bounded (handleLoadedMetadata 29 initial_player) = Inr True \<and>
   map_sum id progress_bounded
     (and_then (handleLoadedMetadata 29 initial_player) (handleTimeUpdate (59 / 2)))
     = Inr False \<and>
   progress_bounded streaming_player \<and>
   map_sum id (\<lambda>st'. progress_bounded (set_state st' streaming_player))
     (player_state_changed_listener True (Some lost_track)
        (state (spotifyPlayer streaming_player))) = Inr False"
proof -
  have a: "seek 100 initial_player = Inr overshoot_player"
    by (simp add: seek_def overshoot_player_def isPremiumPlayer_def audio_send_def
        example_defs Let_def)
  have loc: "\<not> isPremiumPlayer overshoot_player"
    by (simp add: overshoot_player_def isPremiumPlayer_def example_defs)
  have b: "merged_progress overshoot_player = 100" "merged_duration overshoot_player = 30"
    using loc
    by (simp_all add: merged_progress_def merged_duration_def or_number_def
        overshoot_player_def example_defs)
  have c: "\<not> (0 \<le> merged_progress overshoot_player \<and>
      merged_progress overshoot_player \<le> merged_duration overshoot_player)"
    by (simp add: b)
  have d: "map_sum id progress_bounded (handleTimeUpdate 20 initial_player) = Inr True"
    by (simp add: handleTimeUpdate_def progress_bounded_def merged_progress_def
        merged_duration_def isPremiumPlayer_def or_number_def example_defs)
  have e: "map_sum id progress_bounded
     (and_then (handleTimeUpdate 20 initial_player) (handleLoadedMetadata 10)) = Inr False"
    by (simp add: handleTimeUpdate_def handleLoadedMetadata_def and_then_def
        progress_bounded_def merged_progress_def merged_duration_def isPremiumPlayer_def
        or_number_def example_defs)
  have f: "map_sum id progress_bounded (handleLoadedMetadata 29 initial_player) = Inr True"
    by (simp add: handleLoadedMetadata_def progress_bounded_def merged_progress_def
        merged_duration_def isPremiumPlayer_def or_number_def example_defs)
  have g: "map_sum id progress_bounded
     (and_then (handleLoadedMetadata 29 initial_player) (handleTimeUpdate (59 / 2)))
     = Inr False"
    by (simp add: handleTimeUpdate_def handleLoadedMetadata_def and_then_def
        progress_bounded_def merged_progress_def merged_duration_def isPremiumPlayer_def
        or_number_def example_defs)
  have h: "progress_bounded streaming_player"
    by (simp add: progress_bounded_def merged_progress_def merged_duration_def
        isPremiumPlayer_def truthy_def streaming_player_def ready_state_def example_defs)
  have i: "map_sum id (\<lambda>st'. progress_bounded (set_state st' streaming_player))
     (player_state_changed_listener True (Some lost_track)
        (state (spotifyPlayer streaming_player))) = Inr False"
    by (simp add: player_state_changed_listener_def lost_track_def streaming_player_def
        ready_state_def set_state_def progress_bounded_def merged_progress_def
        merged_duration_def isPremiumPlayer_def truthy_def or_number_def example_defs
        Let_def)
  from a b c d e f g h i show ?thesis by (intro conjI)
qed

text \<open>
  Claim C8. With the local fallback authoritative and a preview duration of zero, the
  merged duration is 30. With the remote backend authoritative, the merged progress and
  duration are the adapter's millisecond values divided by 1000, and \<open>seek(t)\<close> calls
  the adapter's \<open>seek\<close> with \<open>t * 1000\<close>, which is what the connected vendor player
  receives.
\<close>

theorem merged_time_units:
  "(\<not> isPremiumPlayer p \<and> preview_duration (previewState p) = 0 \<longrightarrow> merged_duration p = 30) \<and>
   (isPremiumPlayer p \<longrightarrow>
      merged_progress p = position (state (spotifyPlayer p)) / 1000 \<and>
      merged_duration p = duration (state (spotifyPlayer p)) / 1000 \<and>
      seek t p = Inr (p\<lparr>spotifyPlayer := spotifyPlayer_seek (t * 1000) (spotifyPlayer p)\<rparr>) \<and>
      (\<forall>calls. playerRef (spotifyPlayer p) = Some calls \<longrightarrow>
         spotifyPlayer_seek (t * 1000) (spotifyPlayer p) =
           (spotifyPlayer p)\<lparr>playerRef := Some (calls @ [SdkSeek (t * 1000)])\<rparr>))"
  by (simp add: merged_duration_def merged_progress_def or_number_def seek_def
      spotifyPlayer_seek_def sdk_send_def)

theorem merged_time_units_witness:
  "\<not> isPremiumPlayer initial_player \<and> preview_duration (previewState initial_player) = 0 \<and>
   merged_duration initial_player = 30 \<and>
   isPremiumPlayer streaming_player \<and>
   merged_progress streaming_player = 399 / 2 \<and> merged_duration streaming_player = 200 \<and>
   seek 12 streaming_player =
     Inr (streaming_player\<lparr>spotifyPlayer :=
            (spotifyPlayer streaming_player)\<lparr>playerRef := Some [SdkSeek 12000]\<rparr>\<rparr>)"
  using merged_time_units [of initial_player 12] merged_time_units [of streaming_player 12]
  by (simp add: streaming_player_def ready_state_def isPremiumPlayer_def truthy_def
      example_defs)

end
